theory Spec2Isabelle
  imports Complex_Main
begin

section \<open>The sumo controller of enhanced\_sumo\_ev3.py\<close>

text \<open>
  A shallow embedding of the controller. Python floats are modelled as reals, so the
  decimal constants of the source are exact rationals here (\<open>1.2\<close> is \<open>12/10\<close>) and
  NaN and infinities do not occur. Every hardware call of the source (motor commands,
  sleeps, prints, file writes) is recorded as an effect, in program order. The drivers are
  outside the source; of their own checks the model has the one of \<open>on_for_seconds\<close> of the
  ev3dev2 library, which refuses a negative duration. Every sensor read and every
  clock read of one loop iteration is an input field of its own, in the order in which the
  source performs the reads.
\<close>

subsection \<open>Configuration (lines 22 to 56)\<close>

definition BASE_SPEED_SEARCH :: real where "BASE_SPEED_SEARCH = 20"
definition BASE_SPEED_APPROACH :: real where "BASE_SPEED_APPROACH = 30"
definition BASE_SPEED_PUSH :: real where "BASE_SPEED_PUSH = 85"
definition REFLECT_WHITE_THRESHOLD :: int where "REFLECT_WHITE_THRESHOLD = 40"
definition US_DETECT_CM :: real where "US_DETECT_CM = 25"
definition US_PUSH_CM :: real where "US_PUSH_CM = 7"
definition KP :: real where "KP = 12 / 10"
definition KI :: real where "KI = 1 / 100"
definition KD :: real where "KD = 8 / 100"
definition PID_LIMIT :: real where "PID_LIMIT = 40"
definition PUSH_MAX_TIME :: real where "PUSH_MAX_TIME = 2"
definition EDGE_BACKUP_TIME :: real where "EDGE_BACKUP_TIME = 1 / 2"
definition EDGE_ROTATE_TIME :: real where "EDGE_ROTATE_TIME = 6 / 10"

subsection \<open>Names and exceptions\<close>

datatype py_error = NameError string | ValueError string

text \<open>
  Every name the module binds at top level: its imports (lines 16 to 20), its constants,
  hardware handles, functions, the class and the instance \<open>pid\<close>, and the names every
  module has.
\<close>

definition module_globals :: "string list" where
  "module_globals =
    [''LargeMotor'', ''MoveTank'', ''OUTPUT_B'', ''OUTPUT_C'', ''SpeedPercent'',
     ''UltrasonicSensor'', ''ColorSensor'', ''INPUT_1'', ''INPUT_2'', ''INPUT_3'', ''INPUT_4'',
     ''sleep'', ''time'', ''csv'', ''os'',
     ''LEFT_MOTOR_PORT'', ''RIGHT_MOTOR_PORT'', ''US_LEFT_PORT'', ''US_RIGHT_PORT'',
     ''COLOR_LEFT_PORT'', ''COLOR_RIGHT_PORT'', ''BUMPER_PORT'',
     ''BASE_SPEED_SEARCH'', ''BASE_SPEED_APPROACH'', ''BASE_SPEED_PUSH'',
     ''REFLECT_WHITE_THRESHOLD'', ''US_DETECT_CM'', ''US_PUSH_CM'',
     ''KP'', ''KI'', ''KD'', ''PID_LIMIT'',
     ''PUSH_MAX_TIME'', ''EDGE_BACKUP_TIME'', ''EDGE_ROTATE_TIME'',
     ''LOG_FOLDER'', ''LOG_FILENAME'',
     ''tank'', ''us_left'', ''us_right'', ''cs_left'', ''cs_right'',
     ''ensure_log_folder'', ''log_row'', ''read_reflectance'', ''edge_detected'',
     ''us_distance_cm'', ''PID'', ''pid'',
     ''STATE_SEARCH'', ''STATE_LOCKON'', ''STATE_APPROACH'', ''STATE_PUSH'', ''STATE_RECOVER'',
     ''stop'', ''drive'', ''reverse'', ''rotate'', ''main_loop'',
     ''__name__'', ''__doc__'', ''__file__'', ''__builtins__'']"

text \<open>The builtin functions, constants and exception classes of Python 3.\<close>

definition builtin_names :: "string list" where
  "builtin_names =
    [''abs'', ''all'', ''any'', ''ascii'', ''bin'', ''bool'', ''breakpoint'', ''bytearray'',
     ''bytes'', ''callable'', ''chr'', ''classmethod'', ''compile'', ''complex'', ''delattr'',
     ''dict'', ''dir'', ''divmod'', ''enumerate'', ''eval'', ''exec'', ''filter'', ''float'',
     ''format'', ''frozenset'', ''getattr'', ''globals'', ''hasattr'', ''hash'', ''help'',
     ''hex'', ''id'', ''input'', ''int'', ''isinstance'', ''issubclass'', ''iter'', ''len'',
     ''list'', ''locals'', ''map'', ''max'', ''memoryview'', ''min'', ''next'', ''object'',
     ''oct'', ''open'', ''ord'', ''pow'', ''print'', ''property'', ''range'', ''repr'',
     ''reversed'', ''round'', ''set'', ''setattr'', ''slice'', ''sorted'', ''staticmethod'',
     ''str'', ''sum'', ''super'', ''tuple'', ''type'', ''vars'', ''zip'', ''__import__'',
     ''True'', ''False'', ''None'', ''NotImplemented'', ''Ellipsis'', ''__debug__'',
     ''BaseException'', ''Exception'', ''ArithmeticError'', ''AssertionError'',
     ''AttributeError'', ''BlockingIOError'', ''BrokenPipeError'', ''BufferError'',
     ''BytesWarning'', ''ChildProcessError'', ''ConnectionAbortedError'', ''ConnectionError'',
     ''ConnectionRefusedError'', ''ConnectionResetError'', ''DeprecationWarning'', ''EOFError'',
     ''EnvironmentError'', ''FileExistsError'', ''FileNotFoundError'', ''FloatingPointError'',
     ''FutureWarning'', ''GeneratorExit'', ''IOError'', ''ImportError'', ''ImportWarning'',
     ''IndentationError'', ''IndexError'', ''InterruptedError'', ''IsADirectoryError'',
     ''KeyError'', ''KeyboardInterrupt'', ''LookupError'', ''MemoryError'',
     ''ModuleNotFoundError'', ''NameError'', ''NotADirectoryError'', ''NotImplementedError'',
     ''OSError'', ''OverflowError'', ''PendingDeprecationWarning'', ''PermissionError'',
     ''ProcessLookupError'', ''RecursionError'', ''ReferenceError'', ''ResourceWarning'',
     ''RuntimeError'', ''RuntimeWarning'', ''StopAsyncIteration'', ''StopIteration'',
     ''SyntaxError'', ''SyntaxWarning'', ''SystemError'', ''SystemExit'', ''TabError'',
     ''TimeoutError'', ''TypeError'', ''UnboundLocalError'', ''UnicodeDecodeError'',
     ''UnicodeEncodeError'', ''UnicodeError'', ''UnicodeTranslateError'', ''UnicodeWarning'',
     ''UserWarning'', ''ValueError'', ''Warning'', ''ZeroDivisionError'']"

text \<open>
  The lookup of a global name: it is found among the module's globals or else among the
  builtins, and a name that is in neither raises \<open>NameError\<close>.
\<close>

definition load_global :: "string \<Rightarrow> py_error + unit" where
  "load_global n =
    (if n \<in> set module_globals \<or> n \<in> set builtin_names then Inr ()
     else Inl (NameError n))"

subsection \<open>Robot states, effects, sensors\<close>

datatype robot_state =
  STATE_SEARCH | STATE_LOCKON | STATE_APPROACH | STATE_PUSH | STATE_RECOVER

record log_record =
  row_timestamp :: string
  row_state :: robot_state
  row_us_left_cm :: "real option"
  row_us_right_cm :: "real option"
  row_cs_left :: int
  row_cs_right :: int
  row_error :: real
  row_pid_out :: real
  row_left_speed :: real
  row_right_speed :: real

text \<open>
  \<open>TankOn l r\<close> is \<open>tank.on(SpeedPercent(l), SpeedPercent(r))\<close>, \<open>TankOnForSeconds l r s\<close> is
  \<open>tank.on_for_seconds(SpeedPercent(l), SpeedPercent(r), s, block=True)\<close>.
\<close>

datatype effect =
  TankStop
| TankOn real real
| TankOnForSeconds real real real
| Sleep real
| Print string
| CsvHeader
| CsvRow log_record

text \<open>
  A colour sensor at the moment of a read: \<open>reflected_light_intensity\<close> is \<open>None\<close> when
  reading the property raises, and \<open>sensor_value\<close> is what \<open>sensor.value()\<close> returns then.
\<close>

record color_sensor =
  reflected_light_intensity :: "int option"
  sensor_value :: int

definition read_reflectance :: "color_sensor \<Rightarrow> int" where
  "read_reflectance sensor =
    (case reflected_light_intensity sensor of Some v \<Rightarrow> v | None \<Rightarrow> sensor_value sensor)"

text \<open>
  An ultrasonic sensor at the moment of a read: \<open>distance_centimeters\<close> is \<open>None\<close> when
  reading the property raises.
\<close>

record ultrasonic_sensor =
  distance_centimeters :: "real option"

definition us_distance_cm :: "ultrasonic_sensor \<Rightarrow> real option" where
  "us_distance_cm sensor = distance_centimeters sensor"

text \<open>
  The test \<open>us_l and us_r\<close>, returning the two numbers when it succeeds. In Python's truth
  test of a distance, \<open>None\<close> and \<open>0.0\<close> are false.
\<close>

definition both_truthy :: "real option \<Rightarrow> real option \<Rightarrow> (real \<times> real) option" where
  "both_truthy a b =
    (case a of None \<Rightarrow> None
     | Some x \<Rightarrow> (case b of None \<Rightarrow> None
        | Some y \<Rightarrow> if x \<noteq> 0 \<and> y \<noteq> 0 then Some (x, y) else None))"

text \<open>Lines 174 to 177: the centre distance.\<close>

definition us_center_of :: "real option \<Rightarrow> real option \<Rightarrow> real option" where
  "us_center_of us_l us_r =
    (case both_truthy us_l us_r of None \<Rightarrow> None | Some (l, r) \<Rightarrow> Some ((l + r) / 2))"

text \<open>The test \<open>v and v < bound\<close> of line 185.\<close>

definition truthy_below :: "real option \<Rightarrow> real \<Rightarrow> bool" where
  "truthy_below v bound = (case v of None \<Rightarrow> False | Some x \<Rightarrow> x \<noteq> 0 \<and> x < bound)"

text \<open>The test \<open>us_center and us_center <= US_PUSH_CM\<close> of line 210.\<close>

definition truthy_at_most :: "real option \<Rightarrow> real \<Rightarrow> bool" where
  "truthy_at_most v bound = (case v of None \<Rightarrow> False | Some x \<Rightarrow> x \<noteq> 0 \<and> x \<le> bound)"

subsection \<open>The PID class (lines 104 to 122)\<close>

record PID =
  kp :: real
  ki :: real
  kd :: real
  limit :: "real option"
  pid_prev :: real
  pid_int :: real
  pid_last :: "real option"

definition PID_init :: "real \<Rightarrow> real \<Rightarrow> real \<Rightarrow> real option \<Rightarrow> PID" where
  "PID_init p i d lmt =
    \<lparr>kp = p, ki = i, kd = d, limit = lmt, pid_prev = 0, pid_int = 0, pid_last = None\<rparr>"

definition reset :: "PID \<Rightarrow> PID" where
  "reset s = s\<lparr>pid_prev := 0, pid_int := 0, pid_last := None\<rparr>"

text \<open>
  \<open>compute s now error\<close>: \<open>now\<close> is what \<open>time()\<close> returns at line 112. The result is the
  returned value and the object after the call.
\<close>

definition compute :: "PID \<Rightarrow> real \<Rightarrow> real \<Rightarrow> real \<times> PID" where
  "compute s now error =
    (let dt = (case pid_last s of None \<Rightarrow> 1 / 100 | Some t \<Rightarrow> max (1 / 1000) (now - t));
         s1 = s\<lparr>pid_last := Some now\<rparr>;
         s2 = s1\<lparr>pid_int := pid_int s1 + error * dt\<rparr>;
         derivative = (if dt > 0 then (error - pid_prev s2) / dt else 0);
         s3 = s2\<lparr>pid_prev := error\<rparr>;
         out = kp s3 * error + ki s3 * pid_int s3 + kd s3 * derivative;
         out' = (case limit s3 of None \<Rightarrow> out
                 | Some l \<Rightarrow>
                     (let o1 = (if out > l then l else out)
                      in if o1 < - l then - l else o1))
     in (out', s3))"

text \<open>
  A sequence of calls on one object, each call given as the clock reading and the error.
  For each call: the object before, the clock, the error, the returned value and the object
  after.
\<close>

fun compute_seq :: "PID \<Rightarrow> (real \<times> real) list \<Rightarrow> (PID \<times> real \<times> real \<times> real \<times> PID) list" where
  "compute_seq s [] = []"
| "compute_seq s ((now, error) # calls) =
    (case compute s now error of
       (out, s') \<Rightarrow> (s, now, error, out, s') # compute_seq s' calls)"

subsection \<open>Motor helpers (lines 133 to 149)\<close>

definition stop :: "effect list" where
  "stop = [TankStop]"

definition drive :: "real \<Rightarrow> real \<Rightarrow> (real \<times> real) \<times> effect list" where
  "drive base left_correction =
    (let left = base - left_correction;
         right = base + left_correction;
         left' = max (- 100) (min 100 left);
         right' = max (- 100) (min 100 right)
     in ((left', right'), [TankOn left' right']))"

text \<open>
  \<open>tank.on_for_seconds\<close> of the ev3dev2 library: a negative duration is refused with
  \<open>ValueError\<close> before any command reaches the motors; otherwise the motors run for the
  duration. The result is the effects and the exception raised, if any.
\<close>

definition on_for_seconds :: "real \<Rightarrow> real \<Rightarrow> real \<Rightarrow> effect list \<times> py_error option" where
  "on_for_seconds left_speed right_speed seconds =
    (if seconds < 0 then ([], Some (ValueError ''seconds is negative''))
     else ([TankOnForSeconds left_speed right_speed seconds], None))"

text \<open>
  Lines 143 to 149. The arguments are those of the call: \<open>reverse()\<close> is
  \<open>reverse (- EDGE_BACKUP_TIME) (- 30)\<close> and \<open>rotate()\<close> is \<open>rotate 30 (- 30) EDGE_ROTATE_TIME\<close>.
  When \<open>on_for_seconds\<close> raises, \<open>tank.stop()\<close> is not reached.
\<close>

definition reverse :: "real \<Rightarrow> real \<Rightarrow> effect list \<times> py_error option" where
  "reverse sec pwr =
    (case on_for_seconds pwr pwr sec of
       (effs, Some e) \<Rightarrow> (effs, Some e)
     | (effs, None) \<Rightarrow> (effs @ [TankStop], None))"

definition rotate :: "real \<Rightarrow> real \<Rightarrow> real \<Rightarrow> effect list \<times> py_error option" where
  "rotate left_speed right_speed seconds =
    (case on_for_seconds left_speed right_speed seconds of
       (effs, Some e) \<Rightarrow> (effs, Some e)
     | (effs, None) \<Rightarrow> (effs @ [TankStop], None))"

subsection \<open>Logging (lines 72 to 84)\<close>

text \<open>
  \<open>log_row path_exists write_fails row\<close>: \<open>path_exists\<close> is the answer of
  \<open>os.path.exists(path)\<close>, and \<open>write_fails\<close> says that opening the file or writing to it
  raises an \<open>Exception\<close>, which the \<open>try\<close> of lines 77 to 84 catches and prints.
  \<open>ensure_log_folder\<close> swallows its own exception and has no other effect on the controller.
\<close>

definition log_row :: "bool \<Rightarrow> bool \<Rightarrow> log_record \<Rightarrow> effect list" where
  "log_row path_exists write_fails row =
    (let write_header = \<not> path_exists
     in if write_fails then [Print ''Logging failed:'']
        else (if write_header then [CsvHeader] else []) @ [CsvRow row])"

subsection \<open>One iteration of the loop of \<open>main_loop\<close> (lines 156 to 226)\<close>

record config =
  state :: robot_state
  pid :: PID
  push_start :: "real option"

text \<open>
  The reads of one iteration, in source order. \<open>bumper_guard\<close> and \<open>utc_iso\<close> stand for the
  values of \<open>has_bumper and bumper.is_pressed\<close> and of \<open>datetime.utcnow().isoformat()\<close>;
  they are used only where the names they start with resolve.
\<close>

record tick_input =
  edge_cs_left :: color_sensor
  edge_cs_right :: color_sensor
  turn_cs_left :: color_sensor
  turn_cs_right :: color_sensor
  in_us_left :: ultrasonic_sensor
  in_us_right :: ultrasonic_sensor
  time_compute :: real
  time_push_start :: real
  time_push_check :: real
  bumper_guard :: bool
  utc_iso :: string
  log_cs_left :: color_sensor
  log_cs_right :: color_sensor
  log_path_exists :: bool
  log_write_fails :: bool

text \<open>The variables prepared for the log row at line 180.\<close>

record log_vars =
  error :: real
  pid_out :: real
  left_speed_cmd :: real
  right_speed_cmd :: real

definition log_defaults :: log_vars where
  "log_defaults = \<lparr>error = 0, pid_out = 0, left_speed_cmd = 0, right_speed_cmd = 0\<rparr>"

text \<open>
  How a part of the body ends: it reaches the logging code of line 223, it executes
  \<open>continue\<close>, or it raises.
\<close>

datatype flow = Next log_vars | Continue | Raise py_error

definition edge_detected :: "tick_input \<Rightarrow> bool" where
  "edge_detected inp =
    (let l = read_reflectance (edge_cs_left inp);
         r = read_reflectance (edge_cs_right inp)
     in l \<ge> REFLECT_WHITE_THRESHOLD \<or> r \<ge> REFLECT_WHITE_THRESHOLD)"

text \<open>Lines 164 to 167: the rotation chosen from the two reflectances \<open>l\<close> and \<open>r\<close>.\<close>

definition edge_rotate :: "int \<Rightarrow> int \<Rightarrow> effect list \<times> py_error option" where
  "edge_rotate l r =
    (if l > r then rotate (- 30) 30 EDGE_ROTATE_TIME
     else rotate 30 (- 30) EDGE_ROTATE_TIME)"

text \<open>
  Lines 159 to 170: the edge branch. An exception of \<open>reverse()\<close> or of \<open>rotate\<close> leaves the
  branch before the assignment to \<open>state\<close> and before \<open>pid.reset()\<close>; the reflectances of line
  163 are read only after \<open>reverse()\<close> has returned.
\<close>

definition edge_recovery :: "config \<Rightarrow> tick_input \<Rightarrow> config \<times> effect list \<times> flow" where
  "edge_recovery c inp =
    (case reverse (- EDGE_BACKUP_TIME) (- 30) of
       (effs1, Some e) \<Rightarrow> (c, [Print ''EDGE! recovering...''] @ stop @ effs1, Raise e)
     | (effs1, None) \<Rightarrow>
         (case edge_rotate (read_reflectance (turn_cs_left inp))
                 (read_reflectance (turn_cs_right inp)) of
            (effs2, Some e) \<Rightarrow>
              (c, [Print ''EDGE! recovering...''] @ stop @ effs1 @ effs2, Raise e)
          | (effs2, None) \<Rightarrow>
              (c\<lparr>state := STATE_SEARCH, pid := reset (pid c)\<rparr>,
               [Print ''EDGE! recovering...''] @ stop @ effs1 @ effs2, Continue)))"

text \<open>Lines 182 to 186.\<close>

definition search_step ::
  "config \<Rightarrow> real option \<Rightarrow> real option \<Rightarrow> config \<times> effect list \<times> flow" where
  "search_step c us_l us_r =
    (if truthy_below us_l US_DETECT_CM \<or> truthy_below us_r US_DETECT_CM
     then (c\<lparr>state := STATE_LOCKON, pid := reset (pid c)\<rparr>,
           [TankOn BASE_SPEED_SEARCH (- BASE_SPEED_SEARCH)] @ stop @ [Sleep (5 / 100)],
           Continue)
     else (c, [TankOn BASE_SPEED_SEARCH (- BASE_SPEED_SEARCH)], Next log_defaults))"

text \<open>Lines 188 to 201.\<close>

definition lockon_step ::
  "config \<Rightarrow> real option \<Rightarrow> real option \<Rightarrow> config \<times> effect list \<times> flow" where
  "lockon_step c us_l us_r =
    (case both_truthy us_l us_r of
       Some (l, r) \<Rightarrow>
         if \<bar>l - r\<bar> < 2 then (c\<lparr>state := STATE_APPROACH\<rparr>, [], Next log_defaults)
         else if l < r then (c, [TankOn 15 (- 15)], Next log_defaults)
         else (c, [TankOn (- 15) 15], Next log_defaults)
     | None \<Rightarrow>
         (case on_for_seconds 15 15 (25 / 100) of
            (effs, Some e) \<Rightarrow> (c, effs, Raise e)
          | (effs, None) \<Rightarrow> (c\<lparr>state := STATE_SEARCH\<rparr>, effs, Next log_defaults)))"

text \<open>
  Lines 203 to 214. At line 210 the right operand of \<open>or\<close> is evaluated only when the left
  one is false, and it starts by looking up \<open>has_bumper\<close>.
\<close>

definition approach_step ::
  "config \<Rightarrow> tick_input \<Rightarrow> real option \<Rightarrow> real option \<Rightarrow> real option \<Rightarrow>
   config \<times> effect list \<times> flow" where
  "approach_step c inp us_l us_r us_center =
    (case both_truthy us_l us_r of
       Some (l, r) \<Rightarrow>
         (let err = (r - l) / max 1 (r + l);
              (out, pid') = compute (pid c) (time_compute inp) err;
              ((left, right), eff) = drive BASE_SPEED_APPROACH out;
              c1 = c\<lparr>pid := pid'\<rparr>;
              vars = \<lparr>error = err, pid_out = out, left_speed_cmd = left, right_speed_cmd = right\<rparr>;
              to_push = (c1\<lparr>state := STATE_PUSH, push_start := Some (time_push_start inp)\<rparr>,
                         eff @ [Print ''Entering PUSH''], Next vars)
          in if truthy_at_most us_center US_PUSH_CM then to_push
             else (case load_global ''has_bumper'' of
                     Inl e \<Rightarrow> (c1, eff, Raise e)
                   | Inr _ \<Rightarrow> if bumper_guard inp then to_push else (c1, eff, Next vars)))
     | None \<Rightarrow> (c\<lparr>state := STATE_SEARCH, pid := reset (pid c)\<rparr>, stop, Next log_defaults))"

text \<open>Lines 216 to 221. \<open>time()\<close> is read only when \<open>push_start\<close> is true.\<close>

definition push_step :: "config \<Rightarrow> tick_input \<Rightarrow> config \<times> effect list \<times> flow" where
  "push_step c inp =
    (if (case push_start c of None \<Rightarrow> False
         | Some t \<Rightarrow> t \<noteq> 0 \<and> time_push_check inp - t > PUSH_MAX_TIME)
     then
       (let pre = [TankOn BASE_SPEED_PUSH BASE_SPEED_PUSH, Print ''Push timeout - back off'']
                  @ stop
        in case reverse (4 / 10) (- 40) of
             (effs1, Some e) \<Rightarrow> (c, pre @ effs1, Raise e)
           | (effs1, None) \<Rightarrow>
               (case rotate 30 (- 30) EDGE_ROTATE_TIME of
                  (effs2, Some e) \<Rightarrow> (c, pre @ effs1 @ effs2, Raise e)
                | (effs2, None) \<Rightarrow>
                    (c\<lparr>state := STATE_SEARCH, pid := reset (pid c)\<rparr>,
                     pre @ effs1 @ effs2, Next log_defaults)))
     else (c, [TankOn BASE_SPEED_PUSH BASE_SPEED_PUSH], Next log_defaults))"

text \<open>Lines 157 to 221: everything before the logging code.\<close>

definition decide :: "config \<Rightarrow> tick_input \<Rightarrow> config \<times> effect list \<times> flow" where
  "decide c inp =
    (if edge_detected inp then edge_recovery c inp
     else
       (let us_l = us_distance_cm (in_us_left inp);
            us_r = us_distance_cm (in_us_right inp);
            us_center = us_center_of us_l us_r
        in case state c of
             STATE_SEARCH \<Rightarrow> search_step c us_l us_r
           | STATE_LOCKON \<Rightarrow> lockon_step c us_l us_r
           | STATE_APPROACH \<Rightarrow> approach_step c inp us_l us_r us_center
           | STATE_PUSH \<Rightarrow> push_step c inp
           | STATE_RECOVER \<Rightarrow> (c, [], Next log_defaults)))"

text \<open>
  Lines 223 to 226: the timestamp, the log row and the sleep. Line 224 starts by looking up
  \<open>datetime\<close>.
\<close>

definition write_log :: "config \<Rightarrow> tick_input \<Rightarrow> log_vars \<Rightarrow> effect list \<times> py_error option" where
  "write_log c inp vars =
    (case load_global ''datetime'' of
       Inl e \<Rightarrow> ([], Some e)
     | Inr _ \<Rightarrow>
         (log_row (log_path_exists inp) (log_write_fails inp)
            \<lparr>row_timestamp = utc_iso inp, row_state = state c,
             row_us_left_cm = us_distance_cm (in_us_left inp),
             row_us_right_cm = us_distance_cm (in_us_right inp),
             row_cs_left = read_reflectance (log_cs_left inp),
             row_cs_right = read_reflectance (log_cs_right inp),
             row_error = error vars, row_pid_out = pid_out vars,
             row_left_speed = left_speed_cmd vars,
             row_right_speed = right_speed_cmd vars\<rparr>
          @ [Sleep (2 / 100)], None))"

text \<open>
  One iteration. The result holds the loop variables and the \<open>pid\<close> object as they are when
  the iteration ends or raises, the effects in program order, and the exception that leaves
  \<open>main_loop\<close>, if any (the caller at line 229 catches \<open>KeyboardInterrupt\<close> only).
\<close>

record outcome =
  out_config :: config
  out_effects :: "effect list"
  out_raised :: "py_error option"

definition tick :: "config \<Rightarrow> tick_input \<Rightarrow> outcome" where
  "tick c inp =
    (case decide c inp of
       (c', effs, Continue) \<Rightarrow> \<lparr>out_config = c', out_effects = effs, out_raised = None\<rparr>
     | (c', effs, Raise e) \<Rightarrow> \<lparr>out_config = c', out_effects = effs, out_raised = Some e\<rparr>
     | (c', effs, Next vars) \<Rightarrow>
         (case write_log c' inp vars of
            (log_effs, r) \<Rightarrow> \<lparr>out_config = c', out_effects = effs @ log_effs, out_raised = r\<rparr>))"

text \<open>Lines 124 and 152 to 154: the loop variables before the first iteration.\<close>

definition init_config :: config where
  "init_config =
    \<lparr>state = STATE_SEARCH, pid = reset (PID_init KP KI KD (Some PID_LIMIT)), push_start = None\<rparr>"

text \<open>
  The configurations the loop variables can hold between iterations. A step is taken also
  from an iteration that raised, so this set contains every configuration at a loop head and
  every configuration in which the loop was left.
\<close>

inductive visited :: "config \<Rightarrow> bool" where
  visited_init: "visited init_config"
| visited_tick: "visited c \<Longrightarrow> visited (out_config (tick c inp))"

text \<open>
  The configurations at the head of the loop: an iteration that raises is the last one.
\<close>

inductive at_loop_head :: "config \<Rightarrow> bool" where
  head_init: "at_loop_head init_config"
| head_tick: "at_loop_head c \<Longrightarrow> out_raised (tick c inp) = None
    \<Longrightarrow> at_loop_head (out_config (tick c inp))"

text \<open>The rows written during an iteration.\<close>

fun csv_rows :: "effect list \<Rightarrow> log_record list" where
  "csv_rows [] = []"
| "csv_rows (CsvRow r # es) = r # csv_rows es"
| "csv_rows (e # es) = csv_rows es"

text \<open>The timed motor commands of an iteration, as (left speed, right speed, seconds).\<close>

fun timed_moves :: "effect list \<Rightarrow> (real \<times> real \<times> real) list" where
  "timed_moves [] = []"
| "timed_moves (TankOnForSeconds l r s # es) = (l, r, s) # timed_moves es"
| "timed_moves (e # es) = timed_moves es"

text \<open>The state in which \<open>reset\<close> leaves the accumulators of a PID object.\<close>

definition pid_is_reset :: "PID \<Rightarrow> bool" where
  "pid_is_reset s = (pid_int s = 0 \<and> pid_prev s = 0 \<and> pid_last s = None)"

subsection \<open>Concrete inputs\<close>

text \<open>A colour sensor whose property read succeeds with the given value.\<close>

definition cs_reading :: "int \<Rightarrow> color_sensor" where
  "cs_reading v = \<lparr>reflected_light_intensity = Some v, sensor_value = v\<rparr>"

definition us_reading :: "real option \<Rightarrow> ultrasonic_sensor" where
  "us_reading d = \<lparr>distance_centimeters = d\<rparr>"

text \<open>
  An iteration during which nothing moves: every read of the left colour sensor gives \<open>cl\<close>,
  every read of the right one \<open>cr\<close>, the ultrasonic sensors give \<open>dl\<close> and \<open>dr\<close>, and the clock
  stands at \<open>t\<close>; the log file exists and can be written.
\<close>

definition snapshot_input ::
  "int \<Rightarrow> int \<Rightarrow> real option \<Rightarrow> real option \<Rightarrow> real \<Rightarrow> tick_input" where
  "snapshot_input cl cr dl dr t =
    \<lparr>edge_cs_left = cs_reading cl, edge_cs_right = cs_reading cr,
     turn_cs_left = cs_reading cl, turn_cs_right = cs_reading cr,
     in_us_left = us_reading dl, in_us_right = us_reading dr,
     time_compute = t, time_push_start = t, time_push_check = t,
     bumper_guard = False, utc_iso = ''2024-01-01T00:00:00'',
     log_cs_left = cs_reading cl, log_cs_right = cs_reading cr,
     log_path_exists = True, log_write_fails = False\<rparr>"

text \<open>The controller in state APPROACH with a fresh PID object.\<close>

definition approach_config :: config where
  "approach_config =
    \<lparr>state = STATE_APPROACH, pid = PID_init KP KI KD (Some PID_LIMIT), push_start = None\<rparr>"

section \<open>Properties\<close>

lemmas cfg_defs = BASE_SPEED_SEARCH_def BASE_SPEED_APPROACH_def BASE_SPEED_PUSH_def
  REFLECT_WHITE_THRESHOLD_def US_DETECT_CM_def US_PUSH_CM_def KP_def KI_def KD_def PID_LIMIT_def
  PUSH_MAX_TIME_def EDGE_BACKUP_TIME_def EDGE_ROTATE_TIME_def

lemmas ex_defs = cs_reading_def us_reading_def snapshot_input_def read_reflectance_def
  us_distance_cm_def approach_config_def

subsection \<open>Names that the module never binds\<close>

lemma has_bumper_unbound: "load_global ''has_bumper'' = Inl (NameError ''has_bumper'')"
  by (simp add: load_global_def module_globals_def builtin_names_def)

lemma datetime_unbound: "load_global ''datetime'' = Inl (NameError ''datetime'')"
  by (simp add: load_global_def module_globals_def builtin_names_def)

lemmas step_defs = tick_def decide_def edge_detected_def edge_recovery_def search_step_def
  lockon_step_def approach_step_def push_step_def write_log_def has_bumper_unbound
  datetime_unbound us_center_of_def both_truthy_def truthy_below_def
  truthy_at_most_def stop_def on_for_seconds_def reverse_def rotate_def edge_rotate_def
  drive_def compute_def reset_def PID_init_def log_defaults_def
  init_config_def log_row_def

subsection \<open>The edge override\<close>

lemma reverse_default_raises:
  "reverse (- EDGE_BACKUP_TIME) (- 30) = ([], Some (ValueError ''seconds is negative''))"
  by (simp add: reverse_def on_for_seconds_def EDGE_BACKUP_TIME_def)

lemma edge_tick:
  assumes "read_reflectance (edge_cs_left inp) \<ge> REFLECT_WHITE_THRESHOLD
           \<or> read_reflectance (edge_cs_right inp) \<ge> REFLECT_WHITE_THRESHOLD"
  shows "tick c inp =
     \<lparr>out_config = c,
      out_effects = [Print ''EDGE! recovering...'', TankStop],
      out_raised = Some (ValueError ''seconds is negative'')\<rparr>"
  using assms
  by (simp add: tick_def decide_def edge_detected_def edge_recovery_def Let_def stop_def
      reverse_default_raises)

text \<open>
  C1. In state APPROACH, with left reflectance 50 and both distances at 5 cm (so that the
  push trigger of line 210 would hold), the edge branch is taken and stops the motors, but
  \<open>reverse()\<close> then passes its default duration \<open>- EDGE_BACKUP_TIME\<close> to \<open>on_for_seconds\<close>,
  which raises \<open>ValueError\<close>. The iteration leaves \<open>main_loop\<close> with the state still
  APPROACH and the PID untouched: no reverse, no rotation, no move to SEARCH.
\<close>

theorem edge_recovery_raises_value_error:
  "read_reflectance (edge_cs_left (snapshot_input 50 10 (Some 5) (Some 5) 0))
     \<ge> REFLECT_WHITE_THRESHOLD
   \<and> truthy_at_most (us_center_of (Some 5) (Some 5)) US_PUSH_CM
   \<and> state approach_config = STATE_APPROACH
   \<and> out_raised (tick approach_config (snapshot_input 50 10 (Some 5) (Some 5) 0))
       = Some (ValueError ''seconds is negative'')
   \<and> out_config (tick approach_config (snapshot_input 50 10 (Some 5) (Some 5) 0))
       = approach_config
   \<and> out_effects (tick approach_config (snapshot_input 50 10 (Some 5) (Some 5) 0))
       = [Print ''EDGE! recovering...'', TankStop]"
  by (simp add: step_defs ex_defs cfg_defs Let_def)

text \<open>
  C4. In state LOCKON, with left reflectance 50 and right reflectance 10, the edge branch
  raises in \<open>reverse()\<close> before the reflectances are compared: no timed motor command is
  sent at all, so there is no rotation, and the state stays LOCKON. The rotation that lines
  164 to 165 choose for these reflectances has left speed \<open>-30\<close> and right speed \<open>+30\<close>:
  left wheel backward, right wheel forward.
\<close>

theorem edge_branch_makes_no_rotation:
  "out_raised (tick (init_config\<lparr>state := STATE_LOCKON\<rparr>) (snapshot_input 50 10 None None 0))
       = Some (ValueError ''seconds is negative'')
   \<and> timed_moves (out_effects
        (tick (init_config\<lparr>state := STATE_LOCKON\<rparr>) (snapshot_input 50 10 None None 0))) = []
   \<and> state (out_config
        (tick (init_config\<lparr>state := STATE_LOCKON\<rparr>) (snapshot_input 50 10 None None 0)))
       = STATE_LOCKON
   \<and> edge_rotate 50 10 = ([TankOnForSeconds (- 30) 30 (6 / 10), TankStop], None)"
  by (simp add: step_defs ex_defs cfg_defs Let_def)

subsection \<open>The state logic on concrete readings\<close>

text \<open>
  What an iteration in state APPROACH does when both distances pass the test of line 205 and
  there is no edge: it moves to PUSH when the centre distance is not 0 and at most
  \<open>US_PUSH_CM\<close>, and goes on to the logging code; otherwise it raises at line 210.
\<close>

lemma approach_push_or_raise:
  assumes "\<not> edge_detected inp" and "state c = STATE_APPROACH"
    and "both_truthy (us_distance_cm (in_us_left inp)) (us_distance_cm (in_us_right inp))
          = Some (l, r)"
  shows "if (l + r) / 2 \<noteq> 0 \<and> (l + r) / 2 \<le> US_PUSH_CM
    then state (out_config (tick c inp)) = STATE_PUSH
      \<and> out_raised (tick c inp) = Some (NameError ''datetime'')
    else state (out_config (tick c inp)) = STATE_APPROACH
      \<and> out_raised (tick c inp) = Some (NameError ''has_bumper'')"
  using assms
  by (simp add: tick_def decide_def approach_step_def us_center_of_def truthy_at_most_def
      write_log_def has_bumper_unbound datetime_unbound Let_def split: prod.splits)

text \<open>
  C2. In state APPROACH with both distances at 20 cm the centre distance is 20, above
  \<open>US_PUSH_CM\<close>, so line 210 goes on to evaluate \<open>has_bumper\<close>, which no line of the module
  binds: the iteration raises \<open>NameError\<close> after the PID call and the drive command, instead
  of staying in APPROACH without failing.
\<close>

theorem push_trigger_raises_name_error:
  "us_center_of (Some 20) (Some 20) = Some 20
   \<and> out_raised (tick approach_config (snapshot_input 5 5 (Some 20) (Some 20) 0))
       = Some (NameError ''has_bumper'')
   \<and> out_effects (tick approach_config (snapshot_input 5 5 (Some 20) (Some 20) 0))
       = [TankOn 30 30]"
  by (simp add: step_defs ex_defs cfg_defs Let_def)

text \<open>
  C3. A reading of 0 cm is taken as absent. With left 0 and right 10 there is no centre
  distance; in APPROACH these readings take the lost-lock branch (stop, state SEARCH); in
  SEARCH a left reading of 0 is not a detection, although it is below \<open>US_DETECT_CM\<close>; and
  in LOCKON two readings of 0, which differ by less than the tolerance, take the fallback
  branch (forward nudge, state SEARCH) instead of moving to APPROACH.
\<close>

theorem zero_distance_is_absent:
  "us_center_of (Some 0) (Some 10) = None
   \<and> state (out_config (tick approach_config (snapshot_input 5 5 (Some 0) (Some 10) 0)))
       = STATE_SEARCH
   \<and> out_effects (tick approach_config (snapshot_input 5 5 (Some 0) (Some 10) 0)) = [TankStop]
   \<and> state (out_config (tick init_config (snapshot_input 5 5 (Some 0) None 0))) = STATE_SEARCH
   \<and> out_effects (tick init_config (snapshot_input 5 5 (Some 0) None 0)) = [TankOn 20 (- 20)]
   \<and> state (out_config (tick (init_config\<lparr>state := STATE_LOCKON\<rparr>)
        (snapshot_input 5 5 (Some 0) (Some 0) 0))) = STATE_SEARCH
   \<and> out_effects (tick (init_config\<lparr>state := STATE_LOCKON\<rparr>)
        (snapshot_input 5 5 (Some 0) (Some 0) 0)) = [TankOnForSeconds 15 15 (25 / 100)]"
  by (simp add: step_defs ex_defs cfg_defs Let_def)

subsection \<open>Logging\<close>

lemma log_row_failure_is_printed:
  "log_row path_exists True row = [Print ''Logging failed:'']"
  by (simp add: log_row_def)

text \<open>
  C5. An iteration that reaches the logging code fails while building the timestamp: line 224
  looks up \<open>datetime\<close>, which the module never imports, outside any \<open>try\<close>. The \<open>NameError\<close>
  leaves \<open>main_loop\<close>, and no row is written. Here: the first iteration, in state SEARCH,
  with no edge and no echo.
\<close>

theorem timestamp_name_error_leaves_loop:
  "out_raised (tick init_config (snapshot_input 5 5 None None 0)) = Some (NameError ''datetime'')
   \<and> csv_rows (out_effects (tick init_config (snapshot_input 5 5 None None 0))) = []"
  by (simp add: step_defs ex_defs cfg_defs Let_def)

text \<open>
  C6. The iteration that moves from SEARCH to LOCKON ends normally at the \<open>continue\<close> of
  line 186 and writes no row. An iteration in which the edge override fires writes no row
  either: it raises in \<open>reverse()\<close>, before the \<open>continue\<close> of line 170.
\<close>

theorem edge_tick_writes_no_row:
  "out_raised (tick init_config (snapshot_input 50 10 None None 0))
       = Some (ValueError ''seconds is negative'')
   \<and> csv_rows (out_effects (tick init_config (snapshot_input 50 10 None None 0))) = []
   \<and> out_raised (tick init_config (snapshot_input 5 5 (Some 20) (Some 20) 0)) = None
   \<and> state (out_config (tick init_config (snapshot_input 5 5 (Some 20) (Some 20) 0)))
       = STATE_LOCKON
   \<and> csv_rows (out_effects (tick init_config (snapshot_input 5 5 (Some 20) (Some 20) 0))) = []"
  by (simp add: step_defs ex_defs cfg_defs Let_def)

subsection \<open>The PID state along the loop\<close>

lemma decide_keeps_reset:
  assumes "state c = STATE_SEARCH \<or> state c = STATE_LOCKON \<Longrightarrow> pid_is_reset (pid c)"
    and "decide c inp = (c', effs, fl)"
    and "state c' = STATE_SEARCH \<or> state c' = STATE_LOCKON
         \<or> (state c' = STATE_APPROACH \<and> state c \<noteq> STATE_APPROACH)"
  shows "pid_is_reset (pid c')"
proof (cases "edge_detected inp")
  case True
  with assms(2) have "c' = c"
    by (simp add: decide_def edge_recovery_def reverse_default_raises)
  with assms(1,3) show ?thesis
    by auto
next
  case False
  show ?thesis
  proof (cases "state c")
    case STATE_SEARCH
    with False assms show ?thesis
      by (auto simp: decide_def search_step_def Let_def reset_def pid_is_reset_def
          split: if_splits)
  next
    case STATE_LOCKON
    with False assms show ?thesis
      by (auto simp: decide_def lockon_step_def on_for_seconds_def Let_def
          split: if_splits option.splits)
  next
    case STATE_APPROACH
    with False assms(2,3) show ?thesis
      by (auto simp: decide_def approach_step_def Let_def reset_def pid_is_reset_def
          split: if_splits option.splits prod.splits sum.splits)
  next
    case STATE_PUSH
    with False assms(2,3) show ?thesis
      by (auto simp: decide_def push_step_def on_for_seconds_def reverse_def rotate_def
          EDGE_ROTATE_TIME_def Let_def reset_def pid_is_reset_def
          split: if_splits option.splits)
  next
    case STATE_RECOVER
    with False assms(2,3) show ?thesis
      by (auto simp: decide_def Let_def)
  qed
qed

lemma tick_config: "out_config (tick c inp) = fst (decide c inp)"
  by (cases "decide c inp") (auto simp: tick_def split: flow.splits prod.splits)

lemma visited_reset:
  "visited c \<Longrightarrow> state c = STATE_SEARCH \<or> state c = STATE_LOCKON \<Longrightarrow> pid_is_reset (pid c)"
proof (induction rule: visited.induct)
  case visited_init
  then show ?case by (simp add: init_config_def reset_def PID_init_def pid_is_reset_def)
next
  case (visited_tick c inp)
  obtain c' effs fl where d: "decide c inp = (c', effs, fl)" by (cases "decide c inp")
  from visited_tick.prems d have s: "state c' = STATE_SEARCH \<or> state c' = STATE_LOCKON
         \<or> (state c' = STATE_APPROACH \<and> state c \<noteq> STATE_APPROACH)"
    by (auto simp: tick_config)
  have "pid_is_reset (pid c')"
    by (rule decide_keeps_reset[where c = c, OF _ d s]) (rule visited_tick.IH)
  with d show ?case
    by (simp add: tick_config)
qed

lemma at_loop_head_visited: "at_loop_head c \<Longrightarrow> visited c"
  by (induction rule: at_loop_head.induct) (auto intro: visited.intros)

text \<open>
  C7. Along every run of the loop, whenever an iteration moves into APPROACH from another
  state, or ends in SEARCH, the PID object then has integral 0, previous error 0 and no last
  timestamp. The move from LOCKON to APPROACH (line 192) calls no \<open>reset\<close>; the object is
  in its reset state there because it was reset on the way into LOCKON (line 186) and LOCKON
  never calls \<open>compute\<close>.
\<close>

theorem pid_reset_on_entry:
  assumes "visited c"
    and "(state (out_config (tick c inp)) = STATE_APPROACH \<and> state c \<noteq> STATE_APPROACH)
         \<or> state (out_config (tick c inp)) = STATE_SEARCH"
  shows "pid_int (pid (out_config (tick c inp))) = 0
    \<and> pid_prev (pid (out_config (tick c inp))) = 0
    \<and> pid_last (pid (out_config (tick c inp))) = None"
proof -
  obtain c' effs fl where d: "decide c inp = (c', effs, fl)" by (cases "decide c inp")
  from assms(2) d have s: "state c' = STATE_SEARCH \<or> state c' = STATE_LOCKON
         \<or> (state c' = STATE_APPROACH \<and> state c \<noteq> STATE_APPROACH)"
    by (auto simp: tick_config)
  have "pid_is_reset (pid c')"
    by (rule decide_keeps_reset[where c = c, OF _ d s]) (rule visited_reset[OF assms(1)])
  with d show ?thesis by (simp add: tick_config pid_is_reset_def)
qed

text \<open>
  The witness: the first iteration sees an opponent at 20 cm on both sides and moves to
  LOCKON; the second one, with the same readings, moves from LOCKON to APPROACH.
\<close>

theorem pid_reset_on_entry_witness:
  "visited (out_config (tick init_config (snapshot_input 5 5 (Some 20) (Some 20) 0)))
   \<and> state (out_config (tick init_config (snapshot_input 5 5 (Some 20) (Some 20) 0)))
       = STATE_LOCKON
   \<and> state (out_config (tick
        (out_config (tick init_config (snapshot_input 5 5 (Some 20) (Some 20) 0)))
        (snapshot_input 5 5 (Some 20) (Some 20) 1))) = STATE_APPROACH
   \<and> pid_int (pid (out_config (tick
        (out_config (tick init_config (snapshot_input 5 5 (Some 20) (Some 20) 0)))
        (snapshot_input 5 5 (Some 20) (Some 20) 1)))) = 0
   \<and> pid_prev (pid (out_config (tick
        (out_config (tick init_config (snapshot_input 5 5 (Some 20) (Some 20) 0)))
        (snapshot_input 5 5 (Some 20) (Some 20) 1)))) = 0
   \<and> pid_last (pid (out_config (tick
        (out_config (tick init_config (snapshot_input 5 5 (Some 20) (Some 20) 0)))
        (snapshot_input 5 5 (Some 20) (Some 20) 1)))) = None"
proof -
  let ?c1 = "out_config (tick init_config (snapshot_input 5 5 (Some 20) (Some 20) 0))"
  let ?c2 = "out_config (tick ?c1 (snapshot_input 5 5 (Some 20) (Some 20) 1))"
  have v: "visited ?c1"
    by (rule visited_tick) (rule visited_init)
  have s1: "state ?c1 = STATE_LOCKON"
    by (simp add: step_defs ex_defs cfg_defs Let_def)
  have s2: "state ?c2 = STATE_APPROACH"
    by (simp add: step_defs ex_defs cfg_defs Let_def)
  have h: "(state ?c2 = STATE_APPROACH \<and> state ?c1 \<noteq> STATE_APPROACH) \<or> state ?c2 = STATE_SEARCH"
    using s1 s2 by simp
  from pid_reset_on_entry[OF v h] v s1 s2 show ?thesis
    by simp
qed

subsection \<open>The PID controller\<close>

lemma compute_limit: "limit (snd (compute s now e)) = limit s"
  by (simp add: compute_def Let_def)

lemma compute_unfold:
  assumes dt: "dt = (case pid_last s of None \<Rightarrow> 1 / 100 | Some t \<Rightarrow> max (1 / 1000) (now - t))"
    and v: "v = kp s * e + ki s * (pid_int s + e * dt) + kd s * ((e - pid_prev s) / dt)"
  shows "0 < dt"
    and "compute s now e =
      (case limit s of None \<Rightarrow> v
       | Some l \<Rightarrow> (let o1 = (if v > l then l else v) in if o1 < - l then - l else o1),
       s\<lparr>pid_last := Some now, pid_int := pid_int s + e * dt, pid_prev := e\<rparr>)"
proof -
  show pos: "0 < dt"
    unfolding dt by (simp add: less_max_iff_disj split: option.splits)
  show "compute s now e =
      (case limit s of None \<Rightarrow> v
       | Some l \<Rightarrow> (let o1 = (if v > l then l else v) in if o1 < - l then - l else o1),
       s\<lparr>pid_last := Some now, pid_int := pid_int s + e * dt, pid_prev := e\<rparr>)"
    unfolding compute_def dt[symmetric]
    using pos by (simp add: Let_def v split: option.splits)
qed

lemma compute_call:
  assumes "compute s now e = (out, s')"
  shows "(limit s = Some L \<longrightarrow> \<bar>out\<bar> \<le> \<bar>L\<bar>)
    \<and> (limit s = Some L \<and> 0 \<le> L \<longrightarrow> - L \<le> out \<and> out \<le> L)
    \<and> 0 < (case pid_last s of None \<Rightarrow> 1 / 100 | Some t \<Rightarrow> max (1 / 1000) (now - t))
    \<and> pid_int s' = pid_int s
        + e * (case pid_last s of None \<Rightarrow> 1 / 100 | Some t \<Rightarrow> max (1 / 1000) (now - t))"
proof -
  define dt where
    "dt = (case pid_last s of None \<Rightarrow> 1 / 100 | Some t \<Rightarrow> max (1 / 1000) (now - t))"
  define v where
    "v = kp s * e + ki s * (pid_int s + e * dt) + kd s * ((e - pid_prev s) / dt)"
  note u = compute_unfold[OF dt_def v_def]
  from assms u(2) have out: "out = (case limit s of None \<Rightarrow> v
       | Some l \<Rightarrow> (let o1 = (if v > l then l else v) in if o1 < - l then - l else o1))"
    and s': "s' = s\<lparr>pid_last := Some now, pid_int := pid_int s + e * dt, pid_prev := e\<rparr>"
    by simp_all
  have "limit s = Some L \<longrightarrow> \<bar>out\<bar> \<le> \<bar>L\<bar>"
    by (auto simp: out Let_def)
  moreover have "limit s = Some L \<and> 0 \<le> L \<longrightarrow> - L \<le> out \<and> out \<le> L"
    by (auto simp: out Let_def)
  moreover have "pid_int s' = pid_int s + e * dt"
    by (simp add: s')
  ultimately show ?thesis
    using u(1) unfolding dt_def by simp
qed

lemma compute_seq_entry:
  "(s0, now, e, out, s1) \<in> set (compute_seq s calls)
    \<Longrightarrow> limit s0 = limit s \<and> compute s0 now e = (out, s1)"
proof (induction calls arbitrary: s)
  case Nil
  then show ?case by simp
next
  case (Cons call calls)
  obtain t x where call: "call = (t, x)" by (cases call)
  obtain y s' where c: "compute s t x = (y, s')" by (cases "compute s t x")
  from Cons.prems call c
  consider "(s0, now, e, out, s1) = (s, t, x, y, s')"
    | "(s0, now, e, out, s1) \<in> set (compute_seq s' calls)"
    by auto
  then show ?case
  proof cases
    case 1
    with c show ?thesis by simp
  next
    case 2
    have "limit s' = limit s" using compute_limit[of s t x] c by simp
    with Cons.IH[OF 2] show ?thesis by simp
  qed
qed

text \<open>
  C8. Take any PID object and any sequence of calls of \<open>compute\<close> on it, with any errors and
  any clock readings. When the object has a limit \<open>L\<close>, every call of the sequence returns a
  value of magnitude at most \<open>\<bar>L\<bar>\<close>, that is, for \<open>L \<ge> 0\<close> (the instance of line 124 has
  \<open>PID_LIMIT = 40\<close>), a value in \<open>[-L, L]\<close>. Every call adds \<open>error * dt\<close> to the integral,
  where \<open>dt\<close> is \<open>0.01\<close> when the object has no last timestamp and otherwise the elapsed
  time, raised to \<open>0.001\<close> when it is smaller; \<open>dt\<close> is positive.
\<close>

theorem compute_seq_bounded:
  assumes "(s0, now, e, out, s1) \<in> set (compute_seq s calls)"
  shows "(limit s = Some L \<longrightarrow> \<bar>out\<bar> \<le> \<bar>L\<bar>)
    \<and> (limit s = Some L \<and> 0 \<le> L \<longrightarrow> - L \<le> out \<and> out \<le> L)
    \<and> 0 < (case pid_last s0 of None \<Rightarrow> 1 / 100 | Some t \<Rightarrow> max (1 / 1000) (now - t))
    \<and> pid_int s1 = pid_int s0
        + e * (case pid_last s0 of None \<Rightarrow> 1 / 100 | Some t \<Rightarrow> max (1 / 1000) (now - t))"
proof -
  from compute_seq_entry[OF assms]
  have l: "limit s0 = limit s" and c: "compute s0 now e = (out, s1)"
    by simp_all
  from compute_call[OF c, of L] show ?thesis
    unfolding l .
qed

text \<open>
  The witness: two calls on the instance of line 124 at the same clock reading 100, with
  errors 50 and \<open>-50\<close>. The second call has elapsed time 0, so its \<open>dt\<close> is \<open>0.001\<close>; its
  unclamped output is far below \<open>-40\<close>.
\<close>

theorem compute_seq_bounded_witness:
  "limit (PID_init KP KI KD (Some PID_LIMIT)) = Some 40
   \<and> (0::real) \<le> 40
   \<and> compute_seq (PID_init KP KI KD (Some PID_LIMIT)) [(100, 50), (100, - 50)] =
       [(\<lparr>kp = 12 / 10, ki = 1 / 100, kd = 8 / 100, limit = Some 40,
           pid_prev = 0, pid_int = 0, pid_last = None\<rparr>,
         100, 50, 40,
         \<lparr>kp = 12 / 10, ki = 1 / 100, kd = 8 / 100, limit = Some 40,
           pid_prev = 50, pid_int = 1 / 2, pid_last = Some 100\<rparr>),
        (\<lparr>kp = 12 / 10, ki = 1 / 100, kd = 8 / 100, limit = Some 40,
           pid_prev = 50, pid_int = 1 / 2, pid_last = Some 100\<rparr>,
         100, - 50, - 40,
         \<lparr>kp = 12 / 10, ki = 1 / 100, kd = 8 / 100, limit = Some 40,
           pid_prev = - 50, pid_int = 9 / 20, pid_last = Some 100\<rparr>)]
   \<and> - 40 \<le> (- 40 :: real) \<and> (- 40 :: real) \<le> 40
   \<and> (9 / 20 :: real) = 1 / 2 + (- 50) * max (1 / 1000) (100 - 100)"
proof -
  let ?p = "PID_init KP KI KD (Some PID_LIMIT)"
  let ?a = "\<lparr>kp = 12 / 10, ki = 1 / 100, kd = 8 / 100, limit = Some 40,
           pid_prev = 50, pid_int = 1 / 2, pid_last = Some (100::real)\<rparr>"
  let ?b = "\<lparr>kp = 12 / 10, ki = 1 / 100, kd = 8 / 100, limit = Some 40,
           pid_prev = - 50, pid_int = 9 / 20, pid_last = Some (100::real)\<rparr>"
  have l: "limit ?p = Some 40"
    by (simp add: PID_init_def cfg_defs)
  have z: "(0::real) \<le> 40"
    by simp
  have q: "compute_seq ?p [(100, 50), (100, - 50)] =
       [(\<lparr>kp = 12 / 10, ki = 1 / 100, kd = 8 / 100, limit = Some 40,
           pid_prev = 0, pid_int = 0, pid_last = None\<rparr>, 100, 50, 40, ?a),
        (?a, 100, - 50, - 40, ?b)]"
    by (simp add: PID_init_def compute_def cfg_defs Let_def)
  have m: "(?a, 100, - 50, - 40, ?b) \<in> set (compute_seq ?p [(100, 50), (100, - 50)])"
    by (simp only: q) simp
  from compute_seq_bounded[OF m, of 40] l z q show ?thesis
    by simp
qed

text \<open>
  C9. On any PID object, whatever its accumulators and timestamp, \<open>reset\<close> followed by
  \<open>compute e\<close> does what \<open>compute e\<close> does on a newly constructed object with the same gains
  and limit, and returns \<open>kp e + ki (e 0.01) + kd (e - 0) / 0.01\<close>, clamped to the limit
  when there is one, whatever the clock says.
\<close>

theorem reset_then_compute:
  "compute (reset s) now e = compute (PID_init (kp s) (ki s) (kd s) (limit s)) now e
   \<and> fst (compute (reset s) now e) =
       (case limit s of
          None \<Rightarrow> kp s * e + ki s * (e * (1 / 100)) + kd s * ((e - 0) / (1 / 100))
        | Some l \<Rightarrow>
            max (- l) (min l
              (kp s * e + ki s * (e * (1 / 100)) + kd s * ((e - 0) / (1 / 100)))))"
  by (cases s)
    (simp add: compute_def reset_def PID_init_def Let_def max_def min_def split: option.splits)

subsection \<open>The drive mixer\<close>

text \<open>
  C10. For every base speed and correction, in particular for a base in \<open>[-100, 100]\<close> and a
  correction in \<open>[-1000, 1000]\<close>, \<open>drive\<close> returns left = base - correction and
  right = base + correction, each cut off at \<open>100\<close> and \<open>-100\<close> on its own; both lie in
  \<open>[-100, 100]\<close>; right - left is twice the correction when neither is cut off; and the
  returned pair is the one sent to the motors.
\<close>

theorem drive_mixer:
  "fst (drive base c) =
     (if base - c > 100 then 100 else if base - c < - 100 then - 100 else base - c,
      if base + c > 100 then 100 else if base + c < - 100 then - 100 else base + c)
   \<and> - 100 \<le> fst (fst (drive base c)) \<and> fst (fst (drive base c)) \<le> 100
   \<and> - 100 \<le> snd (fst (drive base c)) \<and> snd (fst (drive base c)) \<le> 100
   \<and> (- 100 \<le> base - c \<and> base - c \<le> 100 \<and> - 100 \<le> base + c \<and> base + c \<le> 100
        \<longrightarrow> snd (fst (drive base c)) - fst (fst (drive base c)) = 2 * c)
   \<and> snd (drive base c) = [TankOn (fst (fst (drive base c))) (snd (fst (drive base c)))]"
  by (simp add: drive_def Let_def)

text \<open>
  The witness: base 30 with correction 10, where neither side is cut off, and base 30 with
  correction 100, where the right side saturates at 100 and the left side does not.
\<close>

theorem drive_mixer_witness:
  "- 100 \<le> (30::real) - 10 \<and> (30::real) - 10 \<le> 100
   \<and> - 100 \<le> (30::real) + 10 \<and> (30::real) + 10 \<le> 100
   \<and> fst (drive 30 10) = (20, 40)
   \<and> snd (fst (drive 30 10)) - fst (fst (drive 30 10)) = 2 * 10
   \<and> fst (drive 30 100) = (- 70, 100)"
  using drive_mixer[of 30 10] drive_mixer[of 30 100]
  by simp

end
